theory Spec2Isabelle
  imports Main
begin

section \<open>Shared types (shared-types library)\<close>

text \<open>
  The string-literal unions \<open>OrderStatus\<close> and \<open>Permission\<close> are closed enumerations.
  A \<open>UserRole\<close> is kept as the string it is at run time: the lookups below index an
  object literal with it, and what they do for a string outside the union is part of
  what is verified.
\<close>

datatype OrderStatus = pending | preparing | ready | served | cancelled

datatype Permission =
    VIEW_ORDERS
  | UPDATE_ORDER_STATUS
  | MANAGE_MENU
  | VIEW_REPORTS
  | MANAGE_STAFF
  | PROCESS_PAYMENTS
  | VIEW_CUSTOMER_DATA

type_synonym UserRole = string

text \<open>The members of the union type \<open>UserRole\<close>.\<close>

definition UserRole_values :: "UserRole list" where
  "UserRole_values = [''owner'', ''manager'', ''chef'', ''waiter'']"

text \<open>The own properties of the object literal \<open>ROLE_PERMISSIONS\<close>, in source order.\<close>

definition ROLE_PERMISSIONS :: "(UserRole \<times> Permission list) list" where
  "ROLE_PERMISSIONS =
    [(''owner'',
        [VIEW_ORDERS, UPDATE_ORDER_STATUS, MANAGE_MENU, VIEW_REPORTS, MANAGE_STAFF,
         PROCESS_PAYMENTS, VIEW_CUSTOMER_DATA]),
     (''manager'',
        [VIEW_ORDERS, UPDATE_ORDER_STATUS, VIEW_REPORTS, PROCESS_PAYMENTS,
         VIEW_CUSTOMER_DATA]),
     (''chef'', [VIEW_ORDERS, UPDATE_ORDER_STATUS]),
     (''waiter'', [VIEW_ORDERS, UPDATE_ORDER_STATUS, VIEW_CUSTOMER_DATA])]"

text \<open>
  Reading \<open>ROLE_PERMISSIONS[key]\<close>. An own property gives its array. Any other key
  falls through to \<open>Object.prototype\<close>: its member names give a function or object
  (truthy, with no \<open>includes\<close> method), every other key gives \<open>undefined\<close>.
\<close>

datatype lookup = Entry "Permission list" | Proto_member | Undefined

definition Object_prototype_names :: "string list" where
  "Object_prototype_names =
    [''constructor'', ''__proto__'', ''hasOwnProperty'', ''isPrototypeOf'',
     ''propertyIsEnumerable'', ''toLocaleString'', ''toString'', ''valueOf'',
     ''__defineGetter__'', ''__defineSetter__'', ''__lookupGetter__'',
     ''__lookupSetter__'']"

definition ROLE_PERMISSIONS_get :: "string \<Rightarrow> lookup" where
  "ROLE_PERMISSIONS_get key =
    (case map_of ROLE_PERMISSIONS key of
       Some ps \<Rightarrow> Entry ps
     | None \<Rightarrow> if key \<in> set Object_prototype_names then Proto_member else Undefined)"

section \<open>Errors\<close>

text \<open>
  Everything the code throws. \<open>TypeError\<close> is the engine's own error for calling a
  method on \<open>undefined\<close> or on a value that lacks it. \<open>ApiError\<close> carries the HTTP status
  the static constructors of the class give it, and the message, kept structured.
  \<open>ValidationError\<close> and \<open>DuplicateKey\<close> are what the document store throws on save.
\<close>

datatype issue =
    tableNumber_too_small
  | items_too_small
  | menuItemId_invalid nat
  | quantity_too_small nat
  | status_invalid
  | id_invalid

datatype message =
    Authentication_required
  | Insufficient_permissions "Permission list"
  | Validation_error "issue list"
  | Menu_item_not_found string
  | Menu_item_unavailable string
  | Order_not_found

datatype error =
    TypeError
  | ApiError nat message
  | ValidationError
  | DuplicateKey

definition badRequest :: "message \<Rightarrow> error" where
  "badRequest m = ApiError 400 m"

definition unauthorized :: "message \<Rightarrow> error" where
  "unauthorized m = ApiError 401 m"

definition forbidden :: "message \<Rightarrow> error" where
  "forbidden m = ApiError 403 m"

definition notFound :: "message \<Rightarrow> error" where
  "notFound m = ApiError 404 m"

section \<open>Permission helpers (rbac library)\<close>

text \<open>
  \<open>Array.prototype.some\<close>, \<open>every\<close> and \<open>filter\<close> with a callback that may throw: the
  elements are visited in order, \<open>some\<close> stops at the first true, \<open>every\<close> at the first
  false, and a throw ends the call.
\<close>

fun Array_some :: "('a \<Rightarrow> error + bool) \<Rightarrow> 'a list \<Rightarrow> error + bool" where
  "Array_some f [] = Inr False"
| "Array_some f (x # xs) =
    (case f x of
       Inl e \<Rightarrow> Inl e
     | Inr b \<Rightarrow> if b then Inr True else Array_some f xs)"

fun Array_every :: "('a \<Rightarrow> error + bool) \<Rightarrow> 'a list \<Rightarrow> error + bool" where
  "Array_every f [] = Inr True"
| "Array_every f (x # xs) =
    (case f x of
       Inl e \<Rightarrow> Inl e
     | Inr b \<Rightarrow> if b then Array_every f xs else Inr False)"

fun Array_filter :: "('a \<Rightarrow> error + bool) \<Rightarrow> 'a list \<Rightarrow> error + 'a list" where
  "Array_filter f [] = Inr []"
| "Array_filter f (x # xs) =
    (case f x of
       Inl e \<Rightarrow> Inl e
     | Inr b \<Rightarrow>
        (case Array_filter f xs of
           Inl e \<Rightarrow> Inl e
         | Inr ys \<Rightarrow> Inr (if b then x # ys else ys)))"

definition hasPermission :: "UserRole \<Rightarrow> Permission \<Rightarrow> error + bool" where
  "hasPermission userRole permission =
    (case ROLE_PERMISSIONS_get userRole of
       Entry rolePermissions \<Rightarrow> Inr (permission \<in> set rolePermissions)
     | Proto_member \<Rightarrow> Inl TypeError
     | Undefined \<Rightarrow> Inl TypeError)"

definition hasAnyPermission :: "UserRole \<Rightarrow> Permission list \<Rightarrow> error + bool" where
  "hasAnyPermission userRole permissions =
    Array_some (\<lambda>permission. hasPermission userRole permission) permissions"

definition hasAllPermissions :: "UserRole \<Rightarrow> Permission list \<Rightarrow> error + bool" where
  "hasAllPermissions userRole permissions =
    Array_every (\<lambda>permission. hasPermission userRole permission) permissions"

text \<open>
  \<open>ROLE_PERMISSIONS[userRole] || []\<close>: every array is truthy, and so is a member of
  \<open>Object.prototype\<close>; only \<open>undefined\<close> is replaced by the empty array.
\<close>

definition getRolePermissions :: "UserRole \<Rightarrow> lookup" where
  "getRolePermissions userRole =
    (case ROLE_PERMISSIONS_get userRole of
       Undefined \<Rightarrow> Entry []
     | v \<Rightarrow> v)"

record NavigationItem =
  name :: string
  href :: string
  icon :: string
  permission :: Permission
  roles :: "UserRole list"

text \<open>The master list; the icons are emoji, written here by code point.\<close>

definition allNavItems :: "NavigationItem list" where
  "allNavItems =
    [\<lparr>name = ''Dashboard'', href = ''/dashboard'', icon = ''U+1F4CA'',
      permission = VIEW_ORDERS, roles = [''owner'', ''manager'', ''chef'', ''waiter'']\<rparr>,
     \<lparr>name = ''Orders'', href = ''/orders'', icon = ''U+1F4CB'',
      permission = VIEW_ORDERS, roles = [''owner'', ''manager'', ''chef'', ''waiter'']\<rparr>,
     \<lparr>name = ''Menu'', href = ''/menu'', icon = ''U+1F37D U+FE0F'',
      permission = MANAGE_MENU, roles = [''owner'', ''manager'']\<rparr>,
     \<lparr>name = ''Staff'', href = ''/staff'', icon = ''U+1F465'',
      permission = MANAGE_STAFF, roles = [''owner'']\<rparr>,
     \<lparr>name = ''Reports'', href = ''/reports'', icon = ''U+1F4C8'',
      permission = VIEW_REPORTS, roles = [''owner'', ''manager'']\<rparr>,
     \<lparr>name = ''Payments'', href = ''/payments'', icon = ''U+1F4B0'',
      permission = PROCESS_PAYMENTS, roles = [''owner'', ''manager'']\<rparr>]"

text \<open>
  The callback of the filter: \<open>&&\<close> evaluates \<open>hasPermission\<close> only when the role is
  in the item's list.
\<close>

definition navItemVisible :: "UserRole \<Rightarrow> NavigationItem \<Rightarrow> error + bool" where
  "navItemVisible userRole item =
    (if userRole \<in> set (roles item) then hasPermission userRole (permission item)
     else Inr False)"

definition filterNavItems :: "NavigationItem list \<Rightarrow> UserRole \<Rightarrow> error + NavigationItem list" where
  "filterNavItems items userRole = Array_filter (navItemVisible userRole) items"

definition getNavigationItems :: "UserRole \<Rightarrow> error + NavigationItem list" where
  "getNavigationItems userRole = filterNavItems allNavItems userRole"

section \<open>Authorization middleware (API)\<close>

text \<open>
  The user document that \<open>authenticate\<close> attaches to the request. Its \<open>permissions\<close>
  array was copied from \<open>ROLE_PERMISSIONS\<close> at registration and is stored with the user.
\<close>

record User =
  user_id :: string
  user_name :: string
  email :: string
  role :: UserRole
  permissions :: "Permission list"
  isActive :: bool

text \<open>
  \<open>authorize(requiredPermissions)\<close> applied to a request whose \<open>user\<close> field is the
  second argument (\<open>None\<close> when no user is attached). \<open>Inr ()\<close> is the call of \<open>next()\<close>.
  The table is read once, before \<open>every\<close> runs; \<open>includes\<close> is only called, and can only
  throw, when there is a permission to test.
\<close>

definition authorize :: "Permission list \<Rightarrow> User option \<Rightarrow> error + unit" where
  "authorize requiredPermissions user =
    (case user of
       None \<Rightarrow> Inl (unauthorized Authentication_required)
     | Some u \<Rightarrow>
        (case Array_every
                (\<lambda>permission.
                   case ROLE_PERMISSIONS_get (role u) of
                     Entry userPermissions \<Rightarrow> Inr (permission \<in> set userPermissions)
                   | Proto_member \<Rightarrow> Inl TypeError
                   | Undefined \<Rightarrow> Inl TypeError)
                requiredPermissions of
           Inl e \<Rightarrow> Inl e
         | Inr hasAllPermissions_ok \<Rightarrow>
            if \<not> hasAllPermissions_ok
            then Inl (forbidden (Insufficient_permissions requiredPermissions))
            else Inr ()))"

section \<open>Documents and the database\<close>

text \<open>
  A JavaScript \<open>number\<close> is the type parameter \<open>'n\<close>: the code only adds, multiplies and
  compares numbers, and what is proved about totals uses no law of arithmetic, so it
  holds for every reading of these operations. A \<open>Date\<close> is a count of milliseconds.
  Strings that the code only copies and compares are HOL strings. The two free-text
  fields that the order schema trims or measures, \<open>customerName\<close> and
  \<open>specialInstructions\<close>, are sequences of UTF-16 code units, which is what \<open>trim\<close> and
  \<open>length\<close> of a JavaScript string work on; \<open>ascii\<close> writes one from an ASCII literal.
\<close>

type_synonym Date = nat

type_synonym code_units = "nat list"

definition ascii :: "string \<Rightarrow> code_units" where
  "ascii s = map of_char s"

datatype MenuCategory = appetizer | main_course | dessert | beverage | special

record 'n MenuItem =
  menu_name :: string
  description :: string
  price :: 'n
  category :: MenuCategory
  available :: bool
  prepTime :: 'n
  allergens :: "string list"
  imageUrl :: "string option"

record 'n OrderItem =
  menuItemId :: string
  menuItemName :: string
  quantity :: 'n
  unitPrice :: 'n
  totalPrice :: 'n
  specialInstructions :: "code_units option"

record 'n Order =
  orderNumber :: string
  tableNumber :: 'n
  items :: "'n OrderItem list"
  status :: OrderStatus
  total :: 'n
  customerName :: "code_units option"
  createdBy :: "string option"
  createdAt :: Date
  updatedAt :: Date

text \<open>
  The order document between \<open>new OrderModel({...})\<close> and \<open>save()\<close>: the fields the
  controller passes, after the schema's setters and defaults. It has no timestamps
  yet, and an order number only if the caller gave one.
\<close>

record 'n NewOrder =
  doc_orderNumber :: "string option"
  doc_tableNumber :: 'n
  doc_items :: "'n OrderItem list"
  doc_status :: OrderStatus
  doc_total :: 'n
  doc_customerName :: "code_units option"
  doc_createdBy :: "string option"

text \<open>
  The two collections the order endpoints read and write, keyed by document id. A key
  is the id as the database spells it (lower-case hexadecimal), and a request is taken
  to name a document by that spelling.
\<close>

record 'n Database =
  menuItems :: "string \<rightharpoonup> 'n MenuItem"
  orders :: "string \<rightharpoonup> 'n Order"

record 'n CreateOrderRequestItem =
  req_menuItemId :: string
  req_quantity :: 'n
  req_specialInstructions :: "code_units option"

record 'n CreateOrderRequest =
  req_tableNumber :: 'n
  req_items :: "'n CreateOrderRequestItem list"
  req_customerName :: "code_units option"

section \<open>Request validation (zod schemas of the order routes)\<close>

text \<open>The pattern \<open>^[0-9a-fA-F]{24}$\<close>.\<close>

definition is_objectId :: "string \<Rightarrow> bool" where
  "is_objectId s \<longleftrightarrow>
    length s = 24 \<and> list_all (\<lambda>c. c \<in> set ''0123456789abcdefABCDEF'') s"

text \<open>
  A schema collects every issue before it fails. \<open>min(1)\<close> on a number raises its issue
  when the value is below 1; \<open>min(1)\<close> on the array when it has no element.
\<close>

fun items_issues ::
  "nat \<Rightarrow> ('n::{one,ord}) CreateOrderRequestItem list \<Rightarrow> issue list" where
  "items_issues i [] = []"
| "items_issues i (item # rest) =
    (if is_objectId (req_menuItemId item) then [] else [menuItemId_invalid i]) @
    (if req_quantity item < 1 then [quantity_too_small i] else []) @
    items_issues (Suc i) rest"

definition createOrderSchema_issues :: "('n::{one,ord}) CreateOrderRequest \<Rightarrow> issue list" where
  "createOrderSchema_issues body =
    (if req_tableNumber body < 1 then [tableNumber_too_small] else []) @
    (if length (req_items body) < 1 then [items_too_small] else []) @
    items_issues 0 (req_items body)"

text \<open>\<open>validate(schema)\<close>: a failed parse is passed on as a 400 listing the issues.\<close>

definition validate_createOrder :: "('n::{one,ord}) CreateOrderRequest \<Rightarrow> error + unit" where
  "validate_createOrder body =
    (case createOrderSchema_issues body of
       [] \<Rightarrow> Inr ()
     | issues \<Rightarrow> Inl (badRequest (Validation_error issues)))"

text \<open>The enum of \<open>updateStatusSchema\<close>, read from the string in the request body.\<close>

definition parse_status :: "string \<Rightarrow> OrderStatus option" where
  "parse_status s =
    (if s = ''pending'' then Some pending
     else if s = ''preparing'' then Some preparing
     else if s = ''ready'' then Some ready
     else if s = ''served'' then Some served
     else if s = ''cancelled'' then Some cancelled
     else None)"

text \<open>
  \<open>validate({...orderParamsSchema, ...updateStatusSchema})\<close> parses the body first and
  the route parameters after it; the first parse that fails ends the validation.
\<close>

definition validate_updateStatus :: "string \<Rightarrow> string \<Rightarrow> error + OrderStatus" where
  "validate_updateStatus orderId body_status =
    (case parse_status body_status of
       None \<Rightarrow> Inl (badRequest (Validation_error [status_invalid]))
     | Some s \<Rightarrow>
        if is_objectId orderId then Inr s
        else Inl (badRequest (Validation_error [id_invalid])))"

section \<open>Order controller\<close>

text \<open>
  The loop of \<open>createOrder\<close> over the requested items, with its two accumulators: the
  running \<open>total\<close> (here \<open>total_acc\<close>) and the \<open>orderItems\<close> pushed so far. A missing menu item and an
  unavailable one each throw, ending the loop at that item.
\<close>

fun createOrder_loop ::
  "(string \<rightharpoonup> ('n::{plus,times}) MenuItem) \<Rightarrow> 'n CreateOrderRequestItem list \<Rightarrow>
   'n \<Rightarrow> 'n OrderItem list \<Rightarrow> error + ('n \<times> 'n OrderItem list)" where
  "createOrder_loop menu [] total_acc orderItems = Inr (total_acc, orderItems)"
| "createOrder_loop menu (item # rest) total_acc orderItems =
    (case menu (req_menuItemId item) of
       None \<Rightarrow> Inl (notFound (Menu_item_not_found (req_menuItemId item)))
     | Some menuItem \<Rightarrow>
        if \<not> available menuItem
        then Inl (badRequest (Menu_item_unavailable (menu_name menuItem)))
        else
          let itemTotal = price menuItem * req_quantity item
          in createOrder_loop menu rest (total_acc + itemTotal)
               (orderItems @
                [\<lparr>menuItemId = req_menuItemId item,
                  menuItemName = menu_name menuItem,
                  quantity = req_quantity item,
                  unitPrice = price menuItem,
                  totalPrice = itemTotal,
                  specialInstructions = req_specialInstructions item\<rparr>]))"

text \<open>
  The schema's setter \<open>trim: true\<close> is \<open>String.prototype.trim\<close>: it removes, at both
  ends, the white space and line terminator code units of the language (tab, line
  feed, vertical tab, form feed, carriage return, space, no-break space, the Unicode
  space separators, line and paragraph separator, and the byte order mark).
\<close>

definition is_space :: "nat \<Rightarrow> bool" where
  "is_space c \<longleftrightarrow>
    c \<in> set [0x0009, 0x000A, 0x000B, 0x000C, 0x000D, 0x0020, 0x00A0, 0x1680,
             0x2028, 0x2029, 0x202F, 0x205F, 0x3000, 0xFEFF] \<or>
    (0x2000 \<le> c \<and> c \<le> 0x200A)"

definition trim :: "code_units \<Rightarrow> code_units" where
  "trim s = rev (dropWhile is_space (rev (dropWhile is_space s)))"

text \<open>
  The validators of the order schema: \<open>required\<close> (a string must also be non-empty),
  \<open>min\<close>, \<open>maxLength\<close> (a count of code units) and the check that there is an item.
\<close>

definition maxLength :: "nat \<Rightarrow> code_units option \<Rightarrow> bool" where
  "maxLength n v = (case v of None \<Rightarrow> True | Some s \<Rightarrow> length s \<le> n)"

definition orderItem_valid :: "('n::{zero,one,ord}) OrderItem \<Rightarrow> bool" where
  "orderItem_valid item \<longleftrightarrow>
    menuItemName item \<noteq> [] \<and>
    1 \<le> quantity item \<and>
    0 \<le> unitPrice item \<and>
    0 \<le> totalPrice item \<and>
    maxLength 200 (specialInstructions item)"

definition order_valid :: "('n::{zero,one,ord}) NewOrder \<Rightarrow> bool" where
  "order_valid doc \<longleftrightarrow>
    doc_orderNumber doc \<noteq> None \<and>
    doc_orderNumber doc \<noteq> Some [] \<and>
    1 \<le> doc_tableNumber doc \<and>
    doc_items doc \<noteq> [] \<and>
    list_all orderItem_valid (doc_items doc) \<and>
    0 \<le> doc_total doc \<and>
    maxLength 100 (doc_customerName doc)"

text \<open>
  \<open>order.save()\<close> on a new document. The validators run first, on the document as the
  controller built it; a failure throws \<open>ValidationError\<close> and nothing else happens.
  Only then do the pre-save hooks run: the one of the order schema writes the order
  number generated from the date and a count of the day's orders (here the parameter
  \<open>newOrderNumber\<close>), and the timestamps are stamped. Then the document is inserted
  under its fresh id (the parameter \<open>newId\<close>); the id and the order number have a
  unique index each.
\<close>

definition save_order ::
  "string \<Rightarrow> string \<Rightarrow> Date \<Rightarrow> ('n::{zero,one,ord}) NewOrder \<Rightarrow> 'n Database \<Rightarrow>
   error + ('n Order \<times> 'n Database)" where
  "save_order newId newOrderNumber now doc db =
    (if \<not> order_valid doc then Inl ValidationError
     else
       let order =
         \<lparr>orderNumber = newOrderNumber,
          tableNumber = doc_tableNumber doc,
          items = doc_items doc,
          status = doc_status doc,
          total = doc_total doc,
          customerName = doc_customerName doc,
          createdBy = doc_createdBy doc,
          createdAt = now,
          updatedAt = now\<rparr>
       in if newId \<in> dom (orders db) \<or>
             (\<exists>stored \<in> ran (orders db). orderNumber stored = newOrderNumber)
          then Inl DuplicateKey
          else Inr (order, db\<lparr>orders := (orders db)(newId \<mapsto> order)\<rparr>))"

text \<open>
  \<open>createOrder\<close>: the request body, the user on the request, and what the environment
  supplies (the clock, the new document id, the order number the hook would generate).
  The controller passes no order number to \<open>new OrderModel\<close>. The result is the
  response (the order, or the error thrown) and the database afterwards. The response
  shows the stored order with its menu item references expanded by \<open>populate\<close>; the
  model returns the stored order itself.
\<close>

definition createOrder ::
  "('n::{zero,one,plus,times,ord}) CreateOrderRequest \<Rightarrow> User option \<Rightarrow> Date \<Rightarrow> string \<Rightarrow>
   string \<Rightarrow> 'n Database \<Rightarrow> (error + 'n Order) \<times> 'n Database" where
  "createOrder body user now newId newOrderNumber db =
    (case createOrder_loop (menuItems db) (req_items body) 0 [] of
       Inl e \<Rightarrow> (Inl e, db)
     | Inr (total_acc, orderItems) \<Rightarrow>
        let doc =
          \<lparr>doc_orderNumber = None,
           doc_tableNumber = req_tableNumber body,
           doc_items = orderItems,
           doc_status = pending,
           doc_total = total_acc,
           doc_customerName = map_option trim (req_customerName body),
           doc_createdBy = map_option user_id user\<rparr>
        in (case save_order newId newOrderNumber now doc db of
              Inl e \<Rightarrow> (Inl e, db)
            | Inr (order, db') \<Rightarrow> (Inr order, db')))"

text \<open>
  \<open>updateOrderStatus\<close>: one \<open>findByIdAndUpdate\<close> that sets \<open>status\<close> and \<open>updatedAt\<close> on
  the document with the given id and returns the updated document, or \<open>null\<close> when
  there is none. The current status is not read.
\<close>

definition updateOrderStatus ::
  "OrderStatus \<Rightarrow> string \<Rightarrow> Date \<Rightarrow> 'n Database \<Rightarrow> (error + 'n Order) \<times> 'n Database" where
  "updateOrderStatus new_status orderId now db =
    (case orders db orderId of
       None \<Rightarrow> (Inl (notFound Order_not_found), db)
     | Some order \<Rightarrow>
        let order' = order\<lparr>status := new_status, updatedAt := now\<rparr>
        in (Inr order', db\<lparr>orders := (orders db)(orderId \<mapsto> order')\<rparr>))"

section \<open>Order routes\<close>

text \<open>
  \<open>POST /orders\<close> and \<open>PATCH /orders/:id/status\<close>: the middleware chain in the order
  the router runs it, then the controller. A middleware that fails ends the request
  and leaves the database as it was.
\<close>

definition post_orders ::
  "User option \<Rightarrow> ('n::{zero,one,plus,times,ord}) CreateOrderRequest \<Rightarrow> Date \<Rightarrow> string \<Rightarrow>
   string \<Rightarrow> 'n Database \<Rightarrow> (error + 'n Order) \<times> 'n Database" where
  "post_orders user body now newId newOrderNumber db =
    (case authorize [VIEW_ORDERS] user of
       Inl e \<Rightarrow> (Inl e, db)
     | Inr _ \<Rightarrow>
        (case validate_createOrder body of
           Inl e \<Rightarrow> (Inl e, db)
         | Inr _ \<Rightarrow> createOrder body user now newId newOrderNumber db))"

definition patch_order_status ::
  "User option \<Rightarrow> string \<Rightarrow> string \<Rightarrow> Date \<Rightarrow> 'n Database \<Rightarrow>
   (error + 'n Order) \<times> 'n Database" where
  "patch_order_status user orderId body_status now db =
    (case authorize [UPDATE_ORDER_STATUS] user of
       Inl e \<Rightarrow> (Inl e, db)
     | Inr _ \<Rightarrow>
        (case validate_updateStatus orderId body_status of
           Inl e \<Rightarrow> (Inl e, db)
         | Inr new_status \<Rightarrow> updateOrderStatus new_status orderId now db))"

section \<open>The total of an order\<close>

text \<open>
  The sum \<open>sum(line.unitPrice * line.quantity for line in lines)\<close> of the order
  invariant: the products of the lines, added in line order starting from 0.
\<close>

definition lines_sum :: "('n::{zero,plus,times}) OrderItem list \<Rightarrow> 'n" where
  "lines_sum lines = foldl (\<lambda>acc line. acc + unitPrice line * quantity line) 0 lines"

definition line_total_ok :: "('n::times) OrderItem \<Rightarrow> bool" where
  "line_total_ok line \<longleftrightarrow> totalPrice line = unitPrice line * quantity line"

section \<open>Example data\<close>

text \<open>
  The scenario of the specification: a menu with a burger at 10, fries at 5 and a soup
  that is unavailable; a request for table 5 of two burgers and one portion of fries;
  and a database that holds the order such a request describes.
\<close>

definition ex_menu :: "string \<rightharpoonup> int MenuItem" where
  "ex_menu =
    [''64b000000000000000000001'' \<mapsto>
       \<lparr>menu_name = ''Burger'', description = ''Beef burger'', price = 10,
        category = main_course, available = True, prepTime = 15, allergens = [],
        imageUrl = None\<rparr>,
     ''64b000000000000000000002'' \<mapsto>
       \<lparr>menu_name = ''Fries'', description = ''French fries'', price = 5,
        category = appetizer, available = True, prepTime = 8, allergens = [],
        imageUrl = None\<rparr>,
     ''64b000000000000000000003'' \<mapsto>
       \<lparr>menu_name = ''Soup'', description = ''Soup of the day'', price = 7,
        category = appetizer, available = False, prepTime = 5, allergens = [],
        imageUrl = None\<rparr>]"

definition ex_db :: "int Database" where
  "ex_db = \<lparr>menuItems = ex_menu, orders = Map.empty\<rparr>"

definition ex_body :: "int CreateOrderRequest" where
  "ex_body =
    \<lparr>req_tableNumber = 5,
     req_items =
       [\<lparr>req_menuItemId = ''64b000000000000000000001'', req_quantity = 2,
         req_specialInstructions = None\<rparr>,
        \<lparr>req_menuItemId = ''64b000000000000000000002'', req_quantity = 1,
         req_specialInstructions = Some (ascii ''no salt'')\<rparr>],
     req_customerName = Some (ascii ''Ada'')\<rparr>"

definition ex_user :: "UserRole \<Rightarrow> User" where
  "ex_user r =
    \<lparr>user_id = ''64b0000000000000000000f1'', user_name = ''Sam'',
     email = ''sam@example.com'', role = r, permissions = [], isActive = True\<rparr>"

definition ex_orderId :: string where
  "ex_orderId = ''64b0000000000000000000a1''"

definition ex_order :: "int Order" where
  "ex_order =
    \<lparr>orderNumber = ''ORD-20240101-001'',
     tableNumber = 5,
     items =
       [\<lparr>menuItemId = ''64b000000000000000000001'', menuItemName = ''Burger'',
         quantity = 2, unitPrice = 10, totalPrice = 20, specialInstructions = None\<rparr>,
        \<lparr>menuItemId = ''64b000000000000000000002'', menuItemName = ''Fries'',
         quantity = 1, unitPrice = 5, totalPrice = 5,
         specialInstructions = Some (ascii ''no salt'')\<rparr>],
     status = pending,
     total = 25,
     customerName = Some (ascii ''Ada''),
     createdBy = Some ''64b0000000000000000000f1'',
     createdAt = 1000,
     updatedAt = 1000\<rparr>"

definition ex_db1 :: "int Database" where
  "ex_db1 = \<lparr>menuItems = ex_menu, orders = [ex_orderId \<mapsto> ex_order]\<rparr>"

section \<open>Properties of the permission helpers\<close>

lemma ROLE_PERMISSIONS_get_known:
  "userRole \<in> set UserRole_values \<Longrightarrow>
     \<exists>held. map_of ROLE_PERMISSIONS userRole = Some held \<and>
            ROLE_PERMISSIONS_get userRole = Entry held"
  by (auto simp: UserRole_values_def ROLE_PERMISSIONS_get_def ROLE_PERMISSIONS_def)

lemma ROLE_PERMISSIONS_get_unknown:
  "userRole \<notin> set UserRole_values \<Longrightarrow>
     ROLE_PERMISSIONS_get userRole =
       (if userRole \<in> set Object_prototype_names then Proto_member else Undefined)"
  by (simp add: UserRole_values_def ROLE_PERMISSIONS_get_def ROLE_PERMISSIONS_def)

lemma hasPermission_known:
  "map_of ROLE_PERMISSIONS userRole = Some held \<Longrightarrow>
     hasPermission userRole c = Inr (c \<in> set held)"
  by (simp add: hasPermission_def ROLE_PERMISSIONS_get_def)

lemma hasPermission_unknown:
  "userRole \<notin> set UserRole_values \<Longrightarrow> hasPermission userRole c = Inl TypeError"
  by (simp add: hasPermission_def ROLE_PERMISSIONS_get_unknown)

lemma Array_some_total:
  "\<forall>x \<in> set xs. f x = Inr (P x) \<Longrightarrow> Array_some f xs = Inr (\<exists>x \<in> set xs. P x)"
  by (induction xs) auto

lemma Array_every_total:
  "\<forall>x \<in> set xs. f x = Inr (P x) \<Longrightarrow> Array_every f xs = Inr (\<forall>x \<in> set xs. P x)"
  by (induction xs) auto

lemma Array_some_throws:
  "\<forall>x. f x = Inl e \<Longrightarrow> Array_some f xs = (if xs = [] then Inr False else Inl e)"
  by (cases xs) auto

lemma Array_every_throws:
  "\<forall>x. f x = Inl e \<Longrightarrow> Array_every f xs = (if xs = [] then Inr True else Inl e)"
  by (cases xs) auto

lemma Array_filter_total:
  "\<forall>x \<in> set xs. f x = Inr (P x) \<Longrightarrow> Array_filter f xs = Inr (filter P xs)"
  by (induction xs) auto

text \<open>
  Claim C9. For every role of the enumeration, with \<open>held\<close> its entry in the table:
  \<open>hasAnyPermission\<close> returns true exactly when some listed capability is held,
  \<open>hasAllPermissions\<close> exactly when every listed capability is held; on the empty list
  the first returns false and the second true.
\<close>

theorem hasAny_hasAll_membership:
  assumes "userRole \<in> set UserRole_values"
  shows "\<exists>held. map_of ROLE_PERMISSIONS userRole = Some held \<and>
           hasAnyPermission userRole caps = Inr (\<exists>c \<in> set caps. c \<in> set held) \<and>
           hasAllPermissions userRole caps = Inr (\<forall>c \<in> set caps. c \<in> set held) \<and>
           hasAnyPermission userRole [] = Inr False \<and>
           hasAllPermissions userRole [] = Inr True"
proof -
  from assms obtain held where h: "map_of ROLE_PERMISSIONS userRole = Some held"
    using ROLE_PERMISSIONS_get_known by blast
  have "hasAnyPermission userRole caps = Inr (\<exists>c \<in> set caps. c \<in> set held)"
    unfolding hasAnyPermission_def
    by (rule Array_some_total) (simp add: hasPermission_known [OF h])
  moreover have "hasAllPermissions userRole caps = Inr (\<forall>c \<in> set caps. c \<in> set held)"
    unfolding hasAllPermissions_def
    by (rule Array_every_total) (simp add: hasPermission_known [OF h])
  ultimately show ?thesis
    using h by (simp add: hasAnyPermission_def hasAllPermissions_def)
qed

theorem hasAny_hasAll_membership_witness:
  "''waiter'' \<in> set UserRole_values \<and>
   hasAnyPermission ''waiter'' [MANAGE_MENU, VIEW_ORDERS] = Inr True \<and>
   hasAllPermissions ''waiter'' [MANAGE_MENU, VIEW_ORDERS] = Inr False \<and>
   hasAnyPermission ''waiter'' [] = Inr False \<and>
   hasAllPermissions ''waiter'' [] = Inr True"
proof -
  have r: "''waiter'' \<in> set UserRole_values"
    by (simp add: UserRole_values_def)
  have m: "map_of ROLE_PERMISSIONS ''waiter'' =
             Some [VIEW_ORDERS, UPDATE_ORDER_STATUS, VIEW_CUSTOMER_DATA]"
    by (simp add: ROLE_PERMISSIONS_def)
  from hasAny_hasAll_membership [OF r, of "[MANAGE_MENU, VIEW_ORDERS]"] m r
  show ?thesis by simp
qed

text \<open>
  Claim C7, as stated, fails: for the role \<open>admin\<close>, outside the enumeration,
  \<open>hasPermission\<close>, \<open>hasAnyPermission\<close> and \<open>hasAllPermissions\<close> end in the engine's
  \<open>TypeError\<close>, which is neither a safe default nor a typed argument error.
\<close>

theorem unknown_role_TypeError:
  "''admin'' \<notin> set UserRole_values \<and>
   hasPermission ''admin'' VIEW_ORDERS = Inl TypeError \<and>
   hasAnyPermission ''admin'' [VIEW_ORDERS] = Inl TypeError \<and>
   hasAllPermissions ''admin'' [VIEW_ORDERS] = Inl TypeError"
  by (simp add: UserRole_values_def hasAnyPermission_def hasAllPermissions_def
        hasPermission_def ROLE_PERMISSIONS_get_def ROLE_PERMISSIONS_def
        Object_prototype_names_def)

text \<open>
  Claim C7, amended. For every role outside the enumeration: \<open>hasPermission\<close> throws
  \<open>TypeError\<close>; \<open>hasAnyPermission\<close> and \<open>hasAllPermissions\<close> throw it as soon as there is a
  capability to test, and return false and true on the empty list; \<open>getRolePermissions\<close>
  returns the empty list, unless the role string names a member of \<open>Object.prototype\<close>,
  which is then returned as it is.
\<close>

theorem unknown_role_behaviour:
  assumes "userRole \<notin> set UserRole_values"
  shows "hasPermission userRole c = Inl TypeError \<and>
         hasAnyPermission userRole caps = (if caps = [] then Inr False else Inl TypeError) \<and>
         hasAllPermissions userRole caps = (if caps = [] then Inr True else Inl TypeError) \<and>
         getRolePermissions userRole =
           (if userRole \<in> set Object_prototype_names then Proto_member else Entry [])"
proof -
  have t: "\<forall>c. hasPermission userRole c = Inl TypeError"
    using assms by (simp add: hasPermission_unknown)
  have "hasAnyPermission userRole caps = (if caps = [] then Inr False else Inl TypeError)"
    unfolding hasAnyPermission_def using t by (rule Array_some_throws)
  moreover
  have "hasAllPermissions userRole caps = (if caps = [] then Inr True else Inl TypeError)"
    unfolding hasAllPermissions_def using t by (rule Array_every_throws)
  moreover
  have "getRolePermissions userRole =
          (if userRole \<in> set Object_prototype_names then Proto_member else Entry [])"
    using assms by (simp add: getRolePermissions_def ROLE_PERMISSIONS_get_unknown)
  ultimately show ?thesis using t by simp
qed

theorem unknown_role_behaviour_witness:
  "''cashier'' \<notin> set UserRole_values \<and>
   hasPermission ''cashier'' VIEW_ORDERS = Inl TypeError \<and>
   hasAnyPermission ''cashier'' [VIEW_ORDERS] = Inl TypeError \<and>
   hasAnyPermission ''cashier'' [] = Inr False \<and>
   hasAllPermissions ''cashier'' [VIEW_ORDERS] = Inl TypeError \<and>
   hasAllPermissions ''cashier'' [] = Inr True \<and>
   getRolePermissions ''cashier'' = Entry []"
proof -
  have r: "''cashier'' \<notin> set UserRole_values"
    by (simp add: UserRole_values_def)
  have p: "''cashier'' \<notin> set Object_prototype_names"
    by (simp add: Object_prototype_names_def)
  from unknown_role_behaviour [OF r, of VIEW_ORDERS "[VIEW_ORDERS]"]
       unknown_role_behaviour [OF r, of VIEW_ORDERS "[]"] r p
  show ?thesis by simp
qed

lemma allNavItems_roles_known:
  "item \<in> set allNavItems \<Longrightarrow> userRole \<in> set (roles item) \<Longrightarrow> userRole \<in> set UserRole_values"
  by (auto simp: allNavItems_def UserRole_values_def)

lemma navItemVisible_allNavItems:
  "item \<in> set allNavItems \<Longrightarrow>
     navItemVisible userRole item =
       Inr (userRole \<in> set (roles item) \<and> hasPermission userRole (permission item) = Inr True)"
proof (cases "userRole \<in> set (roles item)")
  case False
  then show ?thesis by (simp add: navItemVisible_def)
next
  case True
  assume "item \<in> set allNavItems"
  with True have "userRole \<in> set UserRole_values" by (simp add: allNavItems_roles_known)
  then obtain held where "map_of ROLE_PERMISSIONS userRole = Some held"
    using ROLE_PERMISSIONS_get_known by blast
  then show ?thesis using True by (simp add: navItemVisible_def hasPermission_known)
qed

lemma filterNavItems_sound:
  "filterNavItems navItems userRole = Inr shown \<Longrightarrow>
     shown = filter (\<lambda>item. userRole \<in> set (roles item) \<and>
                            hasPermission userRole (permission item) = Inr True) navItems"
  unfolding filterNavItems_def
proof (induction navItems arbitrary: shown)
  case Nil
  then show ?case by simp
next
  case (Cons item rest)
  then show ?case
    by (auto simp: navItemVisible_def split: sum.splits if_splits)
qed

text \<open>
  Claim C8. For every role, \<open>getNavigationItems\<close> returns the items of the master list
  whose allow-list contains the role and whose required capability the role holds, and
  no other: an item whose allow-list lacks the role is never returned.
\<close>

theorem getNavigationItems_double_gate:
  "\<exists>shown. getNavigationItems userRole = Inr shown \<and>
     (\<forall>item. item \<in> set shown \<longleftrightarrow>
        item \<in> set allNavItems \<and> userRole \<in> set (roles item) \<and>
        hasPermission userRole (permission item) = Inr True)"
proof -
  have "getNavigationItems userRole =
          Inr (filter (\<lambda>item. userRole \<in> set (roles item) \<and>
                 hasPermission userRole (permission item) = Inr True) allNavItems)"
    unfolding getNavigationItems_def filterNavItems_def
    by (rule Array_filter_total) (simp add: navItemVisible_allNavItems)
  then show ?thesis by auto
qed

theorem getNavigationItems_double_gate_witness:
  "getNavigationItems ''manager'' =
     Inr [allNavItems ! 0, allNavItems ! 1, allNavItems ! 4, allNavItems ! 5] \<and>
   ''manager'' \<in> set (roles (allNavItems ! 2)) \<and>
   hasPermission ''manager'' (permission (allNavItems ! 2)) = Inr False \<and>
   ''manager'' \<notin> set (roles (allNavItems ! 3))"
  using getNavigationItems_double_gate [of "''manager''"]
  by (simp add: getNavigationItems_def filterNavItems_def navItemVisible_def allNavItems_def
        hasPermission_def ROLE_PERMISSIONS_get_def ROLE_PERMISSIONS_def)

text \<open>
  The master list has no item that leaves out a role holding its capability; on a list
  that has one, the filter drops the item for that role.
\<close>

lemma double_gate_example:
  "hasPermission ''waiter'' VIEW_CUSTOMER_DATA = Inr True \<and>
   filterNavItems
     [\<lparr>name = ''Customers'', href = ''/customers'', icon = '''',
       permission = VIEW_CUSTOMER_DATA, roles = [''owner'', ''manager'']\<rparr>] ''waiter'' = Inr []"
  by (simp add: filterNavItems_def navItemVisible_def hasPermission_def
        ROLE_PERMISSIONS_get_def ROLE_PERMISSIONS_def)

section \<open>Properties of the authorization middleware\<close>

lemma authorize_known:
  "map_of ROLE_PERMISSIONS (role u) = Some held \<Longrightarrow>
     authorize required (Some u) =
       (if \<forall>p \<in> set required. p \<in> set held then Inr ()
        else Inl (forbidden (Insufficient_permissions required)))"
proof -
  assume h: "map_of ROLE_PERMISSIONS (role u) = Some held"
  have "Array_every
          (\<lambda>permission.
             case ROLE_PERMISSIONS_get (role u) of
               Entry userPermissions \<Rightarrow> Inr (permission \<in> set userPermissions)
             | Proto_member \<Rightarrow> Inl TypeError
             | Undefined \<Rightarrow> Inl TypeError) required = Inr (\<forall>p \<in> set required. p \<in> set held)"
    by (rule Array_every_total) (simp add: ROLE_PERMISSIONS_get_def h)
  then show ?thesis by (simp add: authorize_def)
qed

lemma authorize_unknown:
  "role u \<notin> set UserRole_values \<Longrightarrow>
     authorize required (Some u) = (if required = [] then Inr () else Inl TypeError)"
proof -
  assume h: "role u \<notin> set UserRole_values"
  have "Array_every
          (\<lambda>permission.
             case ROLE_PERMISSIONS_get (role u) of
               Entry userPermissions \<Rightarrow> Inr (permission \<in> set userPermissions)
             | Proto_member \<Rightarrow> Inl TypeError
             | Undefined \<Rightarrow> Inl TypeError) required = (if required = [] then Inr True else Inl TypeError)"
    by (rule Array_every_throws) (simp add: ROLE_PERMISSIONS_get_unknown [OF h])
  then show ?thesis by (simp add: authorize_def)
qed

lemma all_roles_update_status:
  "r \<in> set UserRole_values \<Longrightarrow> \<exists>held. map_of ROLE_PERMISSIONS r = Some held \<and> UPDATE_ORDER_STATUS \<in> set held"
  by (auto simp: UserRole_values_def ROLE_PERMISSIONS_def)

lemma authorize_update_status:
  "role u \<in> set UserRole_values \<Longrightarrow> authorize [UPDATE_ORDER_STATUS] (Some u) = Inr ()"
  using all_roles_update_status [of "role u"] by (auto simp: authorize_known)

text \<open>
  Claim C10. \<open>authorize\<close> lets a request of a user with a role of the enumeration pass
  exactly when every required permission is in the role's entry of \<open>ROLE_PERMISSIONS\<close>,
  and answers 403 otherwise; two users with the same role get the same answer, whatever
  the \<open>permissions\<close> arrays stored with them.
\<close>

theorem authorize_depends_on_role_only:
  "(role u \<in> set UserRole_values \<longrightarrow>
      (\<exists>held. map_of ROLE_PERMISSIONS (role u) = Some held \<and>
         (authorize required (Some u) = Inr () \<longleftrightarrow> (\<forall>p \<in> set required. p \<in> set held)) \<and>
         (authorize required (Some u) \<noteq> Inr () \<longrightarrow>
            authorize required (Some u) =
              Inl (forbidden (Insufficient_permissions required))))) \<and>
   (role u = role u' \<longrightarrow> authorize required (Some u) = authorize required (Some u'))"
proof -
  have "authorize required (Some u) = authorize required (Some u')" if "role u = role u'"
    using that by (simp add: authorize_def)
  moreover have "\<exists>held. map_of ROLE_PERMISSIONS (role u) = Some held \<and>
         (authorize required (Some u) = Inr () \<longleftrightarrow> (\<forall>p \<in> set required. p \<in> set held)) \<and>
         (authorize required (Some u) \<noteq> Inr () \<longrightarrow>
            authorize required (Some u) =
              Inl (forbidden (Insufficient_permissions required)))"
    if "role u \<in> set UserRole_values"
  proof -
    from that obtain held where h: "map_of ROLE_PERMISSIONS (role u) = Some held"
      using ROLE_PERMISSIONS_get_known by blast
    show ?thesis using h by (simp add: authorize_known [OF h])
  qed
  ultimately show ?thesis by blast
qed

theorem authorize_depends_on_role_only_witness:
  "role (ex_user ''chef'') \<in> set UserRole_values \<and>
   role (ex_user ''chef'') = role ((ex_user ''chef'')\<lparr>permissions := [MANAGE_STAFF]\<rparr>) \<and>
   authorize [MANAGE_STAFF] (Some (ex_user ''chef'')) =
     Inl (forbidden (Insufficient_permissions [MANAGE_STAFF])) \<and>
   authorize [MANAGE_STAFF] (Some ((ex_user ''chef'')\<lparr>permissions := [MANAGE_STAFF]\<rparr>)) =
     Inl (forbidden (Insufficient_permissions [MANAGE_STAFF])) \<and>
   authorize [VIEW_ORDERS, UPDATE_ORDER_STATUS] (Some (ex_user ''chef'')) = Inr ()"
proof -
  have r: "role (ex_user ''chef'') \<in> set UserRole_values"
    by (simp add: ex_user_def UserRole_values_def)
  have e: "role (ex_user ''chef'') = role ((ex_user ''chef'')\<lparr>permissions := [MANAGE_STAFF]\<rparr>)"
    by simp
  have f: "authorize [MANAGE_STAFF] (Some (ex_user ''chef'')) =
             Inl (forbidden (Insufficient_permissions [MANAGE_STAFF]))"
    by (simp add: authorize_def ROLE_PERMISSIONS_get_def ROLE_PERMISSIONS_def ex_user_def)
  have g: "authorize [VIEW_ORDERS, UPDATE_ORDER_STATUS] (Some (ex_user ''chef'')) = Inr ()"
    by (simp add: authorize_def ROLE_PERMISSIONS_get_def ROLE_PERMISSIONS_def ex_user_def)
  have same: "authorize [MANAGE_STAFF] (Some (ex_user ''chef'')) =
              authorize [MANAGE_STAFF] (Some ((ex_user ''chef'')\<lparr>permissions := [MANAGE_STAFF]\<rparr>))"
    using authorize_depends_on_role_only
            [of "ex_user ''chef''" "[MANAGE_STAFF]"
                "(ex_user ''chef'')\<lparr>permissions := [MANAGE_STAFF]\<rparr>"] e
    by blast
  from same f have f': "authorize [MANAGE_STAFF]
                           (Some ((ex_user ''chef'')\<lparr>permissions := [MANAGE_STAFF]\<rparr>)) =
                         Inl (forbidden (Insufficient_permissions [MANAGE_STAFF]))"
    by simp
  show ?thesis using r e f f' g by blast
qed

section \<open>Properties of the status update\<close>

lemmas auth_eval = authorize_def ROLE_PERMISSIONS_get_def ROLE_PERMISSIONS_def ex_user_def

lemmas post_eval = post_orders_def validate_createOrder_def createOrderSchema_issues_def
  is_objectId_def createOrder_def save_order_def order_valid_def orderItem_valid_def
  maxLength_def trim_def is_space_def Let_def

lemmas patch_eval = patch_order_status_def validate_updateStatus_def parse_status_def
  is_objectId_def updateOrderStatus_def Let_def

lemma patch_failure_keeps_db:
  "patch_order_status user orderId body_status now db = (Inl e, db') \<Longrightarrow> db' = db"
  by (auto simp: patch_order_status_def updateOrderStatus_def Let_def split: sum.splits option.splits)

lemma patch_success:
  "authorize [UPDATE_ORDER_STATUS] user = Inr () \<Longrightarrow> is_objectId orderId \<Longrightarrow>
   parse_status body_status = Some new_status \<Longrightarrow> orders db orderId = Some order \<Longrightarrow>
   patch_order_status user orderId body_status now db =
     (Inr (order\<lparr>status := new_status, updatedAt := now\<rparr>),
      db\<lparr>orders := (orders db)(orderId \<mapsto> order\<lparr>status := new_status, updatedAt := now\<rparr>)\<rparr>)"
  by (simp add: patch_order_status_def validate_updateStatus_def updateOrderStatus_def Let_def)

lemma patch_success_inv:
  "patch_order_status user orderId body_status now db = (Inr order', db') \<Longrightarrow>
   \<exists>order new_status. authorize [UPDATE_ORDER_STATUS] user = Inr () \<and> is_objectId orderId \<and>
     parse_status body_status = Some new_status \<and> orders db orderId = Some order \<and>
     order' = order\<lparr>status := new_status, updatedAt := now\<rparr> \<and>
     db' = db\<lparr>orders := (orders db)(orderId \<mapsto> order')\<rparr>"
  by (auto simp: patch_order_status_def validate_updateStatus_def updateOrderStatus_def Let_def
        split: sum.splits option.splits if_splits)

text \<open>
  Claim C1, as stated, fails: a chef asks for \<open>pending\<close> on an order that is \<open>served\<close>,
  a move out of a terminal state, and the request succeeds and the order is \<open>pending\<close>
  again.
\<close>

theorem served_order_reopened:
  "orders (ex_db1\<lparr>orders := [ex_orderId \<mapsto> ex_order\<lparr>status := served\<rparr>]\<rparr>) ex_orderId = Some (ex_order\<lparr>status := served\<rparr>) \<and>
   patch_order_status (Some (ex_user ''chef'')) ex_orderId ''pending'' 2000
      (ex_db1\<lparr>orders := [ex_orderId \<mapsto> ex_order\<lparr>status := served\<rparr>]\<rparr>) =
    (Inr (ex_order\<lparr>status := pending, updatedAt := 2000\<rparr>),
     ex_db1\<lparr>orders := [ex_orderId \<mapsto> ex_order\<lparr>status := pending, updatedAt := 2000\<rparr>]\<rparr>)"
  by (simp add: auth_eval patch_eval ex_db1_def ex_orderId_def)

text \<open>
  Claim C1, amended. The status update has no transition table: for a caller with a
  role of the enumeration, a well-formed order id, a status of the enumeration and an
  existing order, the request succeeds whatever the current status of the order and
  writes the requested status. A request fails only with 401 (no user), with the
  engine's \<open>TypeError\<close> (a role outside the enumeration), with 400 (status outside the
  enumeration, malformed id) or with 404 (no such order), and then the database is
  unchanged.
\<close>

theorem status_update_any_to_any:
  "(role u \<in> set UserRole_values \<longrightarrow> is_objectId orderId \<longrightarrow>
    parse_status body_status = Some new_status \<longrightarrow> orders db orderId = Some order \<longrightarrow>
      patch_order_status (Some u) orderId body_status now db =
        (Inr (order\<lparr>status := new_status, updatedAt := now\<rparr>),
         db\<lparr>orders := (orders db)(orderId \<mapsto> order\<lparr>status := new_status, updatedAt := now\<rparr>)\<rparr>)) \<and>
   (\<forall>e db'. patch_order_status user orderId body_status now db = (Inl e, db') \<longrightarrow>
      db' = db \<and>
      (e = unauthorized Authentication_required \<or>
       e = TypeError \<or>
       e = badRequest (Validation_error [status_invalid]) \<or>
       e = badRequest (Validation_error [id_invalid]) \<or>
       e = notFound Order_not_found))"
proof (intro conjI impI allI)
  assume "role u \<in> set UserRole_values" "is_objectId orderId"
    "parse_status body_status = Some new_status" "orders db orderId = Some order"
  then show "patch_order_status (Some u) orderId body_status now db =
        (Inr (order\<lparr>status := new_status, updatedAt := now\<rparr>),
         db\<lparr>orders := (orders db)(orderId \<mapsto> order\<lparr>status := new_status, updatedAt := now\<rparr>)\<rparr>)"
    by (simp add: patch_success authorize_update_status)
next
  fix e db'
  assume "patch_order_status user orderId body_status now db = (Inl e, db')"
  then show "db' = db" by (rule patch_failure_keeps_db)
next
  fix e db'
  assume a: "patch_order_status user orderId body_status now db = (Inl e, db')"
  show "e = unauthorized Authentication_required \<or>
       e = TypeError \<or>
       e = badRequest (Validation_error [status_invalid]) \<or>
       e = badRequest (Validation_error [id_invalid]) \<or>
       e = notFound Order_not_found"
  proof (cases user)
    case None
    with a show ?thesis by (simp add: patch_order_status_def authorize_def)
  next
    case (Some u)
    show ?thesis
    proof (cases "role u \<in> set UserRole_values")
      case True
      then have "authorize [UPDATE_ORDER_STATUS] (Some u) = Inr ()" by (rule authorize_update_status)
      with a Some show ?thesis
        by (auto simp: patch_order_status_def validate_updateStatus_def updateOrderStatus_def Let_def
            split: option.splits if_splits)
    next
      case False
      then have "authorize [UPDATE_ORDER_STATUS] (Some u) = Inl TypeError" by (simp add: authorize_unknown)
      with a Some show ?thesis by (simp add: patch_order_status_def)
    qed
  qed
qed

theorem status_update_any_to_any_witness:
  "role (ex_user ''waiter'') \<in> set UserRole_values \<and> is_objectId ex_orderId \<and>
   parse_status ''pending'' = Some pending \<and> orders ex_db1 ex_orderId = Some ex_order \<and>
   patch_order_status (Some (ex_user ''waiter'')) ex_orderId ''pending'' 2000 ex_db1 =
     (Inr (ex_order\<lparr>status := pending, updatedAt := 2000\<rparr>),
      ex_db1\<lparr>orders := (orders ex_db1)
        (ex_orderId \<mapsto> ex_order\<lparr>status := pending, updatedAt := 2000\<rparr>)\<rparr>) \<and>
   patch_order_status None ex_orderId ''pending'' 2000 ex_db1 =
     (Inl (unauthorized Authentication_required), ex_db1)"
proof -
  have a: "role (ex_user ''waiter'') \<in> set UserRole_values"
    by (simp add: ex_user_def UserRole_values_def)
  have b: "is_objectId ex_orderId" by (simp add: is_objectId_def ex_orderId_def)
  have c: "parse_status ''pending'' = Some pending" by (simp add: parse_status_def)
  have d: "orders ex_db1 ex_orderId = Some ex_order" by (simp add: ex_db1_def)
  have e: "patch_order_status None ex_orderId ''pending'' 2000 ex_db1 =
     (Inl (unauthorized Authentication_required), ex_db1)"
    by (simp add: patch_order_status_def authorize_def)
  from status_update_any_to_any
         [of "ex_user ''waiter''" ex_orderId "''pending''" pending ex_db1 ex_order 2000 None]
       a b c d e
  show ?thesis by simp
qed

text \<open>
  Claim C2, as stated, fails: a waiter moves a \<open>pending\<close> order to \<open>preparing\<close>, an edge
  the claim reserves to chef, manager and owner, and the request succeeds.
\<close>

theorem waiter_starts_preparing:
  "status ex_order = pending \<and> orders ex_db1 ex_orderId = Some ex_order \<and>
   fst (patch_order_status (Some (ex_user ''waiter'')) ex_orderId ''preparing'' 2000 ex_db1) =
     Inr (ex_order\<lparr>status := preparing, updatedAt := 2000\<rparr>)"
  by (simp add: auth_eval patch_eval ex_db1_def ex_orderId_def ex_order_def)

text \<open>
  Claim C2, amended. For a well-formed request on an existing order, the status update
  succeeds exactly when \<open>authorize\<close> lets the caller pass, that is, when the caller's
  role holds \<open>UPDATE_ORDER_STATUS\<close>. Every role of the enumeration holds it, so every
  role succeeds on every pair of current and requested status: there is no allowed set
  per edge.
\<close>

theorem status_update_role_gate:
  assumes "is_objectId orderId" and "parse_status body_status = Some new_status"
    and "orders db orderId = Some order"
  shows "((\<exists>order'. fst (patch_order_status (Some u) orderId body_status now db) = Inr order') \<longleftrightarrow>
            authorize [UPDATE_ORDER_STATUS] (Some u) = Inr ()) \<and>
         (authorize [UPDATE_ORDER_STATUS] (Some u) = Inr () \<longleftrightarrow>
            hasPermission (role u) UPDATE_ORDER_STATUS = Inr True) \<and>
         (role u \<in> set UserRole_values \<longrightarrow>
            hasPermission (role u) UPDATE_ORDER_STATUS = Inr True \<and>
            fst (patch_order_status (Some u) orderId body_status now db) =
              Inr (order\<lparr>status := new_status, updatedAt := now\<rparr>))"
proof (intro conjI impI)
  show "(\<exists>order'. fst (patch_order_status (Some u) orderId body_status now db) = Inr order') \<longleftrightarrow>
            authorize [UPDATE_ORDER_STATUS] (Some u) = Inr ()"
    using assms
    by (auto simp: patch_order_status_def validate_updateStatus_def updateOrderStatus_def Let_def
          split: sum.splits)
next
  show "authorize [UPDATE_ORDER_STATUS] (Some u) = Inr () \<longleftrightarrow>
            hasPermission (role u) UPDATE_ORDER_STATUS = Inr True"
  proof (cases "role u \<in> set UserRole_values")
    case True
    then show ?thesis
      using all_roles_update_status [of "role u"]
      by (auto simp: authorize_known hasPermission_known)
  next
    case False
    then show ?thesis by (simp add: authorize_unknown hasPermission_unknown)
  qed
next
  assume r: "role u \<in> set UserRole_values"
  then show "hasPermission (role u) UPDATE_ORDER_STATUS = Inr True"
    using all_roles_update_status [of "role u"] by (auto simp: hasPermission_known)
  from r show "fst (patch_order_status (Some u) orderId body_status now db) =
              Inr (order\<lparr>status := new_status, updatedAt := now\<rparr>)"
    using assms by (simp add: patch_success authorize_update_status)
qed

theorem status_update_role_gate_witness:
  "is_objectId ex_orderId \<and> parse_status ''cancelled'' = Some cancelled \<and>
   orders ex_db1 ex_orderId = Some ex_order \<and>
   role (ex_user ''chef'') \<in> set UserRole_values \<and>
   hasPermission (role (ex_user ''chef'')) UPDATE_ORDER_STATUS = Inr True \<and>
   fst (patch_order_status (Some (ex_user ''chef'')) ex_orderId ''cancelled'' 2000 ex_db1) =
     Inr (ex_order\<lparr>status := cancelled, updatedAt := 2000\<rparr>)"
proof -
  have a: "is_objectId ex_orderId" by (simp add: is_objectId_def ex_orderId_def)
  have b: "parse_status ''cancelled'' = Some cancelled" by (simp add: parse_status_def)
  have c: "orders ex_db1 ex_orderId = Some ex_order" by (simp add: ex_db1_def)
  have d: "role (ex_user ''chef'') \<in> set UserRole_values"
    by (simp add: ex_user_def UserRole_values_def)
  from status_update_role_gate [OF a b c, of "ex_user ''chef''" 2000] a b c d show ?thesis by simp
qed

text \<open>
  Claim C4. A status update that succeeds changes one order, and on it the fields
  \<open>status\<close> and \<open>updatedAt\<close>, both in the same write; its total, lines, table number,
  customer name, creation time, creator and order number are as before. A status
  update that fails changes nothing.
\<close>

theorem status_update_frame:
  "(\<forall>e db'. patch_order_status user orderId body_status now db = (Inl e, db') \<longrightarrow> db' = db) \<and>
   (\<forall>order' db'. patch_order_status user orderId body_status now db = (Inr order', db') \<longrightarrow>
      (\<exists>order new_status.
         orders db orderId = Some order \<and> parse_status body_status = Some new_status \<and>
         order' = order\<lparr>status := new_status, updatedAt := now\<rparr> \<and>
         db' = db\<lparr>orders := (orders db)(orderId \<mapsto> order')\<rparr> \<and>
         status order' = new_status \<and> updatedAt order' = now \<and>
         total order' = total order \<and> items order' = items order \<and>
         tableNumber order' = tableNumber order \<and> customerName order' = customerName order \<and>
         createdAt order' = createdAt order \<and> createdBy order' = createdBy order \<and>
         orderNumber order' = orderNumber order))"
proof (intro conjI allI impI)
  fix e db'
  assume "patch_order_status user orderId body_status now db = (Inl e, db')"
  then show "db' = db" by (rule patch_failure_keeps_db)
next
  fix order' db'
  assume "patch_order_status user orderId body_status now db = (Inr order', db')"
  from patch_success_inv [OF this]
  obtain order new_status where
    "orders db orderId = Some order" "parse_status body_status = Some new_status"
    "order' = order\<lparr>status := new_status, updatedAt := now\<rparr>"
    "db' = db\<lparr>orders := (orders db)(orderId \<mapsto> order')\<rparr>"
    by blast
  then show "\<exists>order new_status.
         orders db orderId = Some order \<and> parse_status body_status = Some new_status \<and>
         order' = order\<lparr>status := new_status, updatedAt := now\<rparr> \<and>
         db' = db\<lparr>orders := (orders db)(orderId \<mapsto> order')\<rparr> \<and>
         status order' = new_status \<and> updatedAt order' = now \<and>
         total order' = total order \<and> items order' = items order \<and>
         tableNumber order' = tableNumber order \<and> customerName order' = customerName order \<and>
         createdAt order' = createdAt order \<and> createdBy order' = createdBy order \<and>
         orderNumber order' = orderNumber order"
    by simp
qed

theorem status_update_frame_witness:
  "patch_order_status (Some (ex_user ''manager'')) ex_orderId ''ready'' 3000 ex_db1 =
     (Inr (ex_order\<lparr>status := ready, updatedAt := 3000\<rparr>),
      ex_db1\<lparr>orders := [ex_orderId \<mapsto> ex_order\<lparr>status := ready, updatedAt := 3000\<rparr>]\<rparr>) \<and>
   total (ex_order\<lparr>status := ready, updatedAt := 3000\<rparr>) = 25 \<and>
   items (ex_order\<lparr>status := ready, updatedAt := 3000\<rparr>) = items ex_order \<and>
   patch_order_status (Some (ex_user ''manager'')) ''64b0000000000000000000a2'' ''ready'' 3000 ex_db1 =
     (Inl (notFound Order_not_found), ex_db1)"
proof -
  have p: "patch_order_status (Some (ex_user ''manager'')) ex_orderId ''ready'' 3000 ex_db1 =
     (Inr (ex_order\<lparr>status := ready, updatedAt := 3000\<rparr>),
      ex_db1\<lparr>orders := [ex_orderId \<mapsto> ex_order\<lparr>status := ready, updatedAt := 3000\<rparr>]\<rparr>)"
    by (simp add: auth_eval patch_eval ex_db1_def ex_orderId_def)
  have q: "patch_order_status (Some (ex_user ''manager'')) ''64b0000000000000000000a2'' ''ready'' 3000 ex_db1 =
     (Inl (notFound Order_not_found), ex_db1)"
    by (simp add: auth_eval patch_eval ex_db1_def ex_orderId_def)
  have t: "total ex_order = 25" by (simp add: ex_order_def)
  from status_update_frame [of "Some (ex_user ''manager'')" ex_orderId "''ready''" 3000 ex_db1]
       status_update_frame [of "Some (ex_user ''manager'')" "''64b0000000000000000000a2''" "''ready''" 3000 ex_db1]
       p q t
  show ?thesis by simp
qed

text \<open>
  Claim C5, as stated, fails. Each request is one atomic write, so two concurrent
  requests take effect in one order or the other. From \<open>pending\<close>, the chef's request
  for \<open>preparing\<close> and then the waiter's for \<open>cancelled\<close> both succeed, and the order
  ends \<open>cancelled\<close>: the first update is overwritten and neither caller is told.
\<close>

theorem both_racing_updates_commit:
  "status ex_order = pending \<and> orders ex_db1 ex_orderId = Some ex_order \<and>
   patch_order_status (Some (ex_user ''chef'')) ex_orderId ''preparing'' 2000 ex_db1 =
     (Inr (ex_order\<lparr>status := preparing, updatedAt := 2000\<rparr>),
      ex_db1\<lparr>orders := [ex_orderId \<mapsto> ex_order\<lparr>status := preparing, updatedAt := 2000\<rparr>]\<rparr>) \<and>
   patch_order_status (Some (ex_user ''waiter'')) ex_orderId ''cancelled'' 2001
      (ex_db1\<lparr>orders := [ex_orderId \<mapsto> ex_order\<lparr>status := preparing, updatedAt := 2000\<rparr>]\<rparr>) =
     (Inr (ex_order\<lparr>status := cancelled, updatedAt := 2001\<rparr>),
      ex_db1\<lparr>orders := [ex_orderId \<mapsto> ex_order\<lparr>status := cancelled, updatedAt := 2001\<rparr>]\<rparr>)"
  by (simp add: auth_eval patch_eval ex_db1_def ex_orderId_def ex_order_def)

text \<open>
  Claim C5, amended. The write of a status update is unconditional: of two requests
  for the same existing order, by callers with roles of the enumeration and with
  statuses of the enumeration, both succeed, in either order, and the order keeps
  the status written last. No request fails because the status changed under it.
\<close>

theorem last_status_write_wins:
  assumes "role u1 \<in> set UserRole_values" and "role u2 \<in> set UserRole_values"
    and "is_objectId orderId" and "orders db orderId = Some order"
    and "parse_status body1 = Some s1" and "parse_status body2 = Some s2"
  shows "\<exists>db1 db2.
           patch_order_status (Some u1) orderId body1 t1 db =
             (Inr (order\<lparr>status := s1, updatedAt := t1\<rparr>), db1) \<and>
           patch_order_status (Some u2) orderId body2 t2 db1 =
             (Inr (order\<lparr>status := s2, updatedAt := t2\<rparr>), db2) \<and>
           orders db2 orderId = Some (order\<lparr>status := s2, updatedAt := t2\<rparr>)"
proof -
  let ?o1 = "order\<lparr>status := s1, updatedAt := t1\<rparr>"
  let ?db1 = "db\<lparr>orders := (orders db)(orderId \<mapsto> ?o1)\<rparr>"
  have 1: "patch_order_status (Some u1) orderId body1 t1 db = (Inr ?o1, ?db1)"
    using assms by (simp add: patch_success authorize_update_status)
  have "orders ?db1 orderId = Some ?o1" by simp
  then have 2: "patch_order_status (Some u2) orderId body2 t2 ?db1 =
     (Inr (?o1\<lparr>status := s2, updatedAt := t2\<rparr>),
      ?db1\<lparr>orders := (orders ?db1)(orderId \<mapsto> ?o1\<lparr>status := s2, updatedAt := t2\<rparr>)\<rparr>)"
    using assms by (intro patch_success) (simp_all add: authorize_update_status)
  from 1 2 show ?thesis by simp
qed

theorem last_status_write_wins_witness:
  "role (ex_user ''chef'') \<in> set UserRole_values \<and> role (ex_user ''waiter'') \<in> set UserRole_values \<and>
   is_objectId ex_orderId \<and> orders ex_db1 ex_orderId = Some ex_order \<and>
   parse_status ''cancelled'' = Some cancelled \<and> parse_status ''preparing'' = Some preparing \<and>
   (\<exists>db1 db2.
      patch_order_status (Some (ex_user ''waiter'')) ex_orderId ''cancelled'' 2000 ex_db1 =
        (Inr (ex_order\<lparr>status := cancelled, updatedAt := 2000\<rparr>), db1) \<and>
      patch_order_status (Some (ex_user ''chef'')) ex_orderId ''preparing'' 2001 db1 =
        (Inr (ex_order\<lparr>status := preparing, updatedAt := 2001\<rparr>), db2) \<and>
      orders db2 ex_orderId = Some (ex_order\<lparr>status := preparing, updatedAt := 2001\<rparr>))"
proof -
  have a: "role (ex_user ''waiter'') \<in> set UserRole_values"
    by (simp add: ex_user_def UserRole_values_def)
  have b: "role (ex_user ''chef'') \<in> set UserRole_values"
    by (simp add: ex_user_def UserRole_values_def)
  have c: "is_objectId ex_orderId" by (simp add: is_objectId_def ex_orderId_def)
  have d: "orders ex_db1 ex_orderId = Some ex_order" by (simp add: ex_db1_def)
  have e: "parse_status ''cancelled'' = Some cancelled" by (simp add: parse_status_def)
  have f: "parse_status ''preparing'' = Some preparing" by (simp add: parse_status_def)
  from last_status_write_wins [OF a b c d e f, of 2000 2001] a b c d e f show ?thesis by simp
qed

section \<open>Properties of order creation\<close>

lemma lines_sum_snoc:
  "lines_sum (lines @ [line]) = lines_sum lines + unitPrice line * quantity line"
  by (simp add: lines_sum_def)

text \<open>
  The loop computes what the order invariant asks for: it returns the sum of the lines
  it built, and each line carries the menu price and the product as its line total.
\<close>

lemma createOrder_loop_sum:
  "createOrder_loop menu reqs t acc = Inr (t', acc') \<Longrightarrow>
   t = lines_sum acc \<Longrightarrow> list_all line_total_ok acc \<Longrightarrow>
   t' = lines_sum acc' \<and> list_all line_total_ok acc'"
proof (induction reqs arbitrary: t acc)
  case Nil
  then show ?case by auto
next
  case (Cons item rest)
  from Cons.prems(1) obtain m where m: "menu (req_menuItemId item) = Some m" "available m"
    by (auto split: option.splits if_splits)
  let ?line = "\<lparr>menuItemId = req_menuItemId item, menuItemName = menu_name m,
                 quantity = req_quantity item, unitPrice = price m,
                 totalPrice = price m * req_quantity item,
                 specialInstructions = req_specialInstructions item\<rparr>"
  from Cons.prems(1) m have
    "createOrder_loop menu rest (t + price m * req_quantity item) (acc @ [?line]) = Inr (t', acc')"
    by (simp add: Let_def)
  moreover have "t + price m * req_quantity item = lines_sum (acc @ [?line])"
    using Cons.prems(2) by (simp add: lines_sum_snoc)
  moreover have "list_all line_total_ok (acc @ [?line])"
  proof -
    have "line_total_ok ?line" by (simp add: line_total_ok_def)
    with Cons.prems(3) show ?thesis by simp
  qed
  ultimately show ?case by (rule Cons.IH)
qed

lemma createOrder_loop_total:
  "createOrder_loop menu reqs 0 [] = Inr (t, lines) \<Longrightarrow>
     t = lines_sum lines \<and> list_all line_total_ok lines"
  using createOrder_loop_sum [of menu reqs 0 "[]" t lines] by (simp add: lines_sum_def)

text \<open>Trimming removes white space beyond ASCII too, and only at the ends.\<close>

lemma trim_example:
  "trim [0x00A0, 0x0020, 0x0041, 0x0020, 0x0042, 0x3000, 0xFEFF, 0x000A] =
     [0x0041, 0x0020, 0x0042]"
  by (simp add: trim_def is_space_def)

text \<open>
  The save never accepts the document: the controller gives it no order number, the
  validators run before the hook that would write one, and the order number is
  required. So no request to \<open>POST /orders\<close> is answered with an order.
\<close>

lemma save_order_without_number:
  "doc_orderNumber doc = None \<Longrightarrow> save_order newId num now doc db = Inl ValidationError"
  by (simp add: save_order_def order_valid_def)

lemma createOrder_never_succeeds:
  "fst (createOrder body user now newId num db) \<noteq> Inr order"
  by (simp add: createOrder_def save_order_without_number Let_def split: sum.splits prod.splits)

lemma post_orders_never_succeeds:
  "fst (post_orders user body now newId num db) \<noteq> Inr order"
  using createOrder_never_succeeds [of body user now newId num db order]
  by (simp add: post_orders_def split: sum.splits)

lemma post_orders_failure:
  "post_orders user body now newId num db = (Inl e, db') \<Longrightarrow> db' = db"
  by (auto simp: post_orders_def createOrder_def save_order_without_number Let_def
        split: sum.splits prod.splits)

lemma post_orders_valid_request:
  "authorize [VIEW_ORDERS] user = Inr () \<Longrightarrow> createOrderSchema_issues body = [] \<Longrightarrow>
   createOrder_loop (menuItems db) (req_items body) 0 [] = Inr (t, lines) \<Longrightarrow>
   post_orders user body now newId num db = (Inl ValidationError, db)"
  by (simp add: post_orders_def validate_createOrder_def createOrder_def
        save_order_without_number Let_def)

text \<open>
  Claim C3 speaks of the orders that \<open>createOrder\<close> creates, and the code creates
  none. The request of the scenario, by a waiter, passes the authorization and the
  request validation, and the loop computes its lines and the total 25, the sum of the
  lines; then the save rejects the document for its missing order number, the request
  is answered with the validation error, and the database holds no order.
\<close>

theorem valid_order_request_rejected:
  "authorize [VIEW_ORDERS] (Some (ex_user ''waiter'')) = Inr () \<and>
   validate_createOrder ex_body = Inr () \<and>
   createOrder_loop (menuItems ex_db) (req_items ex_body) 0 [] = Inr (25, items ex_order) \<and>
   lines_sum (items ex_order) = 25 \<and>
   post_orders (Some (ex_user ''waiter'')) ex_body 1000 ex_orderId ''ORD-20240101-001'' ex_db =
     (Inl ValidationError, ex_db)"
proof -
  have a: "authorize [VIEW_ORDERS] (Some (ex_user ''waiter'')) = Inr ()"
    by (simp add: auth_eval)
  have i: "createOrderSchema_issues ex_body = []"
    by (simp add: createOrderSchema_issues_def ex_body_def is_objectId_def)
  have l: "createOrder_loop (menuItems ex_db) (req_items ex_body) 0 [] =
             Inr (25, items ex_order)"
    by (simp add: ex_db_def ex_menu_def ex_body_def ex_order_def Let_def)
  have s: "lines_sum (items ex_order) = 25"
    by (simp add: lines_sum_def ex_order_def)
  have v: "validate_createOrder ex_body = Inr ()"
    using i by (simp add: validate_createOrder_def)
  from a v l s post_orders_valid_request [OF a i l] show ?thesis by simp
qed

lemma items_issues_quantity:
  "quantity_too_small j \<in> set (items_issues i reqs) \<longleftrightarrow>
     (\<exists>k < length reqs. j = i + k \<and> req_quantity (reqs ! k) < 1)"
proof (induction reqs arbitrary: i)
  case Nil
  then show ?case by simp
next
  case (Cons item rest)
  have "(\<exists>k < length (item # rest). j = i + k \<and> req_quantity ((item # rest) ! k) < 1) \<longleftrightarrow>
        (j = i \<and> req_quantity item < 1) \<or>
        (\<exists>k < length rest. j = Suc i + k \<and> req_quantity (rest ! k) < 1)"
    by (auto simp: less_Suc_eq_0_disj)
  with Cons.IH [of "Suc i"] show ?case by auto
qed

lemma items_issues_none:
  "items_issues i reqs = [] \<Longrightarrow> r \<in> set reqs \<Longrightarrow>
     is_objectId (req_menuItemId r) \<and> \<not> req_quantity r < 1"
  by (induction reqs arbitrary: i) (auto split: if_splits)

lemma createOrderSchema_passes:
  "createOrderSchema_issues body = [] \<Longrightarrow>
     \<not> req_tableNumber body < 1 \<and> req_items body \<noteq> [] \<and>
     (\<forall>r \<in> set (req_items body). is_objectId (req_menuItemId r) \<and> \<not> req_quantity r < 1)"
  by (auto simp: createOrderSchema_issues_def dest: items_issues_none split: if_splits)

lemma validate_createOrder_fails:
  "createOrderSchema_issues body \<noteq> [] \<Longrightarrow>
     validate_createOrder body = Inl (badRequest (Validation_error (createOrderSchema_issues body)))"
  by (simp add: validate_createOrder_def split: list.splits)

lemma post_orders_invalid:
  "authorize [VIEW_ORDERS] user = Inr () \<Longrightarrow> createOrderSchema_issues body \<noteq> [] \<Longrightarrow>
     post_orders user body now newId num db =
       (Inl (badRequest (Validation_error (createOrderSchema_issues body))), db)"
  by (simp add: post_orders_def validate_createOrder_fails)

lemma createOrder_loop_first_missing:
  "\<forall>r \<in> set before. \<exists>m. menu (req_menuItemId r) = Some m \<and> available m \<Longrightarrow>
   menu (req_menuItemId item) = None \<Longrightarrow>
   createOrder_loop menu (before @ item # rest) t acc =
     Inl (notFound (Menu_item_not_found (req_menuItemId item)))"
  by (induction before arbitrary: t acc) (auto simp: Let_def)

lemma createOrder_loop_first_unavailable:
  "\<forall>r \<in> set before. \<exists>m. menu (req_menuItemId r) = Some m \<and> available m \<Longrightarrow>
   menu (req_menuItemId item) = Some m \<Longrightarrow> \<not> available m \<Longrightarrow>
   createOrder_loop menu (before @ item # rest) t acc =
     Inl (badRequest (Menu_item_unavailable (menu_name m)))"
  by (induction before arbitrary: t acc) (auto simp: Let_def)

lemma createOrder_loop_all_available:
  assumes "createOrder_loop menu reqs t acc = Inr (t', acc')" and "r \<in> set reqs"
  shows "\<exists>m. menu (req_menuItemId r) = Some m \<and> available m"
  using assms
  by (induction reqs arbitrary: t acc) (auto simp: Let_def split: option.splits if_splits)

lemma post_orders_loop_error:
  "authorize [VIEW_ORDERS] user = Inr () \<Longrightarrow> createOrderSchema_issues body = [] \<Longrightarrow>
   createOrder_loop (menuItems db) (req_items body) 0 [] = Inl e \<Longrightarrow>
   post_orders user body now newId num db = (Inl e, db)"
  by (simp add: post_orders_def validate_createOrder_def createOrder_def)

lemma createOrder_loop_errors:
  "createOrder_loop menu reqs t acc = Inl e \<Longrightarrow>
     (\<exists>i. e = notFound (Menu_item_not_found i)) \<or>
     (\<exists>n. e = badRequest (Menu_item_unavailable n))"
  by (induction reqs arbitrary: t acc) (auto simp: Let_def split: option.splits if_splits)

lemma createOrder_loop_some_unavailable:
  assumes "r \<in> set reqs" and "menu (req_menuItemId r) = Some m" and "\<not> available m"
  shows "\<exists>e. createOrder_loop menu reqs t acc = Inl e"
proof (cases "createOrder_loop menu reqs t acc")
  case (Inl e)
  then show ?thesis by blast
next
  case (Inr res)
  then obtain t' acc' where "createOrder_loop menu reqs t acc = Inr (t', acc')"
    by (cases res) simp
  from createOrder_loop_all_available [OF this assms(1)] assms(2,3)
  show ?thesis by simp
qed

text \<open>
  Claim C6, as stated, fails: the request below references the unavailable soup, yet
  it is not answered with the unavailable-item error but with 404, because the line
  before it references a menu item that does not exist and the loop stops there.
\<close>

theorem missing_item_before_unavailable:
  "(\<exists>m. menuItems ex_db ''64b000000000000000000003'' = Some m \<and> \<not> available m) \<and>
   post_orders (Some (ex_user ''waiter''))
     \<lparr>req_tableNumber = 5,
      req_items =
        [\<lparr>req_menuItemId = ''64b000000000000000000009'', req_quantity = 1,
          req_specialInstructions = None\<rparr>,
         \<lparr>req_menuItemId = ''64b000000000000000000003'', req_quantity = 1,
          req_specialInstructions = None\<rparr>],
      req_customerName = None\<rparr>
     1000 ex_orderId ''ORD-20240101-001'' ex_db =
   (Inl (notFound (Menu_item_not_found ''64b000000000000000000009'')), ex_db)"
  by (simp add: auth_eval post_eval ex_db_def ex_menu_def ex_orderId_def)

text \<open>
  Claim C6, amended. For a caller that \<open>authorize\<close> lets pass: a request with no line
  is answered 400 with the issue on \<open>items\<close>, and a request with a quantity below 1 is
  answered 400 with the issue on that quantity; a request that passes validation is
  answered, at its first line whose menu item is missing or unavailable, 404 if the
  item is missing and 400 "currently unavailable" if it is unavailable. So a request
  that references an unavailable item is always rejected, with one of these three
  errors. A request that is rejected leaves the database unchanged.
\<close>

theorem createOrder_rejections:
  assumes "authorize [VIEW_ORDERS] user = Inr ()"
  shows
   "(req_items body = [] \<longrightarrow>
       (\<exists>issues. post_orders user body now newId num db =
                   (Inl (badRequest (Validation_error issues)), db) \<and>
                 items_too_small \<in> set issues)) \<and>
    (\<forall>i. i < length (req_items body) \<and> req_quantity (req_items body ! i) < 1 \<longrightarrow>
       (\<exists>issues. post_orders user body now newId num db =
                   (Inl (badRequest (Validation_error issues)), db) \<and>
                 quantity_too_small i \<in> set issues)) \<and>
    (\<forall>before item rest.
       createOrderSchema_issues body = [] \<and> req_items body = before @ item # rest \<and>
       (\<forall>r \<in> set before. \<exists>m. menuItems db (req_menuItemId r) = Some m \<and> available m) \<longrightarrow>
         (menuItems db (req_menuItemId item) = None \<longrightarrow>
            post_orders user body now newId num db =
              (Inl (notFound (Menu_item_not_found (req_menuItemId item))), db)) \<and>
         (\<forall>m. menuItems db (req_menuItemId item) = Some m \<and> \<not> available m \<longrightarrow>
            post_orders user body now newId num db =
              (Inl (badRequest (Menu_item_unavailable (menu_name m))), db))) \<and>
    (\<forall>r m. r \<in> set (req_items body) \<and> menuItems db (req_menuItemId r) = Some m \<and>
           \<not> available m \<longrightarrow>
       (\<exists>e. post_orders user body now newId num db = (Inl e, db) \<and>
            ((\<exists>issues. e = badRequest (Validation_error issues)) \<or>
             (\<exists>i. e = notFound (Menu_item_not_found i)) \<or>
             (\<exists>n. e = badRequest (Menu_item_unavailable n))))) \<and>
    (\<forall>e db'. post_orders user body now newId num db = (Inl e, db') \<longrightarrow> db' = db)"
proof (intro conjI allI impI)
  assume "req_items body = []"
  then have "items_too_small \<in> set (createOrderSchema_issues body)"
    by (simp add: createOrderSchema_issues_def)
  then show "\<exists>issues. post_orders user body now newId num db =
                   (Inl (badRequest (Validation_error issues)), db) \<and>
                 items_too_small \<in> set issues"
    using post_orders_invalid [OF assms, of body] by fastforce
next
  fix i
  assume "i < length (req_items body) \<and> req_quantity (req_items body ! i) < 1"
  then have "quantity_too_small i \<in> set (items_issues 0 (req_items body))"
    by (auto simp: items_issues_quantity)
  then have "quantity_too_small i \<in> set (createOrderSchema_issues body)"
    by (simp add: createOrderSchema_issues_def)
  then show "\<exists>issues. post_orders user body now newId num db =
                   (Inl (badRequest (Validation_error issues)), db) \<and>
                 quantity_too_small i \<in> set issues"
    using post_orders_invalid [OF assms, of body] by fastforce
next
  fix before item rest
  assume a: "createOrderSchema_issues body = [] \<and> req_items body = before @ item # rest \<and>
       (\<forall>r \<in> set before. \<exists>m. menuItems db (req_menuItemId r) = Some m \<and> available m)"
    and n: "menuItems db (req_menuItemId item) = None"
  from a n have "createOrder_loop (menuItems db) (req_items body) 0 [] =
      Inl (notFound (Menu_item_not_found (req_menuItemId item)))"
    by (simp add: createOrder_loop_first_missing)
  with a show "post_orders user body now newId num db =
              (Inl (notFound (Menu_item_not_found (req_menuItemId item))), db)"
    by (simp add: post_orders_loop_error [OF assms])
next
  fix before item rest m
  assume a: "createOrderSchema_issues body = [] \<and> req_items body = before @ item # rest \<and>
       (\<forall>r \<in> set before. \<exists>m. menuItems db (req_menuItemId r) = Some m \<and> available m)"
    and n: "menuItems db (req_menuItemId item) = Some m \<and> \<not> available m"
  from a n have "createOrder_loop (menuItems db) (req_items body) 0 [] =
      Inl (badRequest (Menu_item_unavailable (menu_name m)))"
    by (simp add: createOrder_loop_first_unavailable)
  with a show "post_orders user body now newId num db =
              (Inl (badRequest (Menu_item_unavailable (menu_name m))), db)"
    by (simp add: post_orders_loop_error [OF assms])
next
  fix r m
  assume u: "r \<in> set (req_items body) \<and> menuItems db (req_menuItemId r) = Some m \<and>
             \<not> available m"
  show "\<exists>e. post_orders user body now newId num db = (Inl e, db) \<and>
            ((\<exists>issues. e = badRequest (Validation_error issues)) \<or>
             (\<exists>i. e = notFound (Menu_item_not_found i)) \<or>
             (\<exists>n. e = badRequest (Menu_item_unavailable n)))"
  proof (cases "createOrderSchema_issues body = []")
    case False
    from post_orders_invalid [OF assms False] show ?thesis by blast
  next
    case True
    from u obtain e where
      e: "createOrder_loop (menuItems db) (req_items body) 0 [] = Inl e"
      using createOrder_loop_some_unavailable by blast
    from post_orders_loop_error [OF assms True e] createOrder_loop_errors [OF e]
    show ?thesis by blast
  qed
next
  fix e db'
  assume "post_orders user body now newId num db = (Inl e, db')"
  then show "db' = db" by (rule post_orders_failure)
qed

theorem createOrder_rejections_witness:
  "authorize [VIEW_ORDERS] (Some (ex_user ''waiter'')) = Inr () \<and>
   post_orders (Some (ex_user ''waiter''))
     \<lparr>req_tableNumber = 5, req_items = [], req_customerName = None\<rparr>
     1000 ex_orderId ''ORD-20240101-001'' ex_db =
     (Inl (badRequest (Validation_error [items_too_small])), ex_db) \<and>
   post_orders (Some (ex_user ''waiter''))
     \<lparr>req_tableNumber = 5,
      req_items = [\<lparr>req_menuItemId = ''64b000000000000000000001'', req_quantity = 0,
                   req_specialInstructions = None\<rparr>],
      req_customerName = None\<rparr>
     1000 ex_orderId ''ORD-20240101-001'' ex_db =
     (Inl (badRequest (Validation_error [quantity_too_small 0])), ex_db) \<and>
   post_orders (Some (ex_user ''waiter''))
     \<lparr>req_tableNumber = 5,
      req_items = [\<lparr>req_menuItemId = ''64b000000000000000000001'', req_quantity = 1,
                   req_specialInstructions = None\<rparr>,
                  \<lparr>req_menuItemId = ''64b000000000000000000003'', req_quantity = 1,
                   req_specialInstructions = None\<rparr>],
      req_customerName = None\<rparr>
     1000 ex_orderId ''ORD-20240101-001'' ex_db =
     (Inl (badRequest (Menu_item_unavailable ''Soup'')), ex_db)"
proof -
  define u where "u = Some (ex_user ''waiter'')"
  define soup :: "int CreateOrderRequest" where
    "soup = \<lparr>req_tableNumber = 5,
      req_items = [\<lparr>req_menuItemId = ''64b000000000000000000001'', req_quantity = 1,
                   req_specialInstructions = None\<rparr>,
                  \<lparr>req_menuItemId = ''64b000000000000000000003'', req_quantity = 1,
                   req_specialInstructions = None\<rparr>],
      req_customerName = None\<rparr>"
  have a: "authorize [VIEW_ORDERS] u = Inr ()"
    by (simp add: u_def auth_eval)
  have e: "post_orders u \<lparr>req_tableNumber = 5, req_items = [], req_customerName = None\<rparr>
             1000 ex_orderId ''ORD-20240101-001'' ex_db =
             (Inl (badRequest (Validation_error [items_too_small])), ex_db)"
    by (simp add: u_def auth_eval post_eval)
  have z: "post_orders u
             \<lparr>req_tableNumber = 5,
              req_items = [\<lparr>req_menuItemId = ''64b000000000000000000001'',
                           req_quantity = 0, req_specialInstructions = None\<rparr>],
              req_customerName = None\<rparr>
             1000 ex_orderId ''ORD-20240101-001'' ex_db =
             (Inl (badRequest (Validation_error [quantity_too_small 0])), ex_db)"
    by (simp add: u_def auth_eval post_eval)
  have h1: "createOrderSchema_issues soup = []"
    by (simp add: soup_def createOrderSchema_issues_def is_objectId_def)
  have h2: "req_items soup =
             [\<lparr>req_menuItemId = ''64b000000000000000000001'', req_quantity = 1,
               req_specialInstructions = None\<rparr>] @
             \<lparr>req_menuItemId = ''64b000000000000000000003'', req_quantity = 1,
               req_specialInstructions = None\<rparr> # []"
    by (simp add: soup_def)
  have h3: "\<forall>r \<in> set [\<lparr>req_menuItemId = ''64b000000000000000000001'',
                          req_quantity = 1::int, req_specialInstructions = None\<rparr>].
              \<exists>m. menuItems ex_db (req_menuItemId r) = Some m \<and> available m"
    by (simp add: ex_db_def ex_menu_def)
  have m: "menuItems ex_db
             (req_menuItemId \<lparr>req_menuItemId = ''64b000000000000000000003'',
                              req_quantity = 1::int, req_specialInstructions = None\<rparr>) =
             Some \<lparr>menu_name = ''Soup'', description = ''Soup of the day'', price = 7,
                   category = appetizer, available = False, prepTime = 5, allergens = [],
                   imageUrl = None\<rparr> \<and>
           \<not> available \<lparr>menu_name = ''Soup'', description = ''Soup of the day'',
                         price = 7::int, category = appetizer, available = False,
                         prepTime = 5::int, allergens = [], imageUrl = None\<rparr>"
    by (simp add: ex_db_def ex_menu_def)
  from createOrder_rejections [OF a, of soup 1000 ex_orderId "''ORD-20240101-001''" ex_db]
  have "\<forall>before item rest.
       createOrderSchema_issues soup = [] \<and> req_items soup = before @ item # rest \<and>
       (\<forall>r \<in> set before. \<exists>m. menuItems ex_db (req_menuItemId r) = Some m \<and> available m) \<longrightarrow>
         (\<forall>m. menuItems ex_db (req_menuItemId item) = Some m \<and> \<not> available m \<longrightarrow>
            post_orders u soup 1000 ex_orderId ''ORD-20240101-001'' ex_db =
              (Inl (badRequest (Menu_item_unavailable (menu_name m))), ex_db))"
    by blast
  from this [rule_format, OF conjI [OF h1 conjI [OF h2 h3]] m]
  have s: "post_orders u soup 1000 ex_orderId ''ORD-20240101-001'' ex_db =
             (Inl (badRequest (Menu_item_unavailable ''Soup'')), ex_db)"
    by simp
  from a e z s show ?thesis
    unfolding u_def soup_def by blast
qed

end
